theory Spec2Isabelle
  imports Complex_Main "HOL-Library.Sublist"
begin

section \<open>Headless playback harness (ci/headless_playback.py)\<close>

text \<open>
  A shallow embedding of the harness script. Python exceptions are values of
  \<open>pyerror\<close>; every function that can raise returns \<open>pyerror + 'a\<close>, and every
  function with an effect takes the state of the machine (\<open>sys\<close>) and returns the new
  one. The build tool, the network and the binary under test are parameters (\<open>ext\<close>).
\<close>

subsection \<open>Python values\<close>

text \<open>
  A fixture is a \<open>Dict[str, Any]\<close> read from JSON. The field values covered here are
  JSON null, booleans, integers and strings (the types of the documented matrix format);
  floats, arrays and objects as field values are outside the model. An absent key is
  \<open>None\<close> of the map, a key holding JSON null is \<open>Some PNone\<close>.
\<close>

datatype pyval = PNone | PBool bool | PInt int | PStr string

type_synonym fixture = "string \<rightharpoonup> pyval"

text \<open>\<open>d.get(k)\<close>: Python's \<open>None\<close> for an absent key.\<close>

definition dict_get :: "fixture \<Rightarrow> string \<Rightarrow> pyval" where
  "dict_get d k = (case d k of None \<Rightarrow> PNone | Some v \<Rightarrow> v)"

text \<open>\<open>d.get(k, default)\<close>.\<close>

definition dict_get_default :: "fixture \<Rightarrow> string \<Rightarrow> pyval \<Rightarrow> pyval" where
  "dict_get_default d k dflt = (case d k of None \<Rightarrow> dflt | Some v \<Rightarrow> v)"

text \<open>Truth value of an object, as \<open>not x\<close> tests it.\<close>

fun truthy :: "pyval \<Rightarrow> bool" where
  "truthy PNone = False"
| "truthy (PBool b) = b"
| "truthy (PInt n) = (n \<noteq> 0)"
| "truthy (PStr s) = (s \<noteq> [])"

text \<open>\<open>str(n)\<close> for an integer.\<close>

fun str_nat :: "nat \<Rightarrow> string" where
  "str_nat n =
     (if n < 10 then [''0123456789'' ! n]
      else str_nat (n div 10) @ [''0123456789'' ! (n mod 10)])"

declare str_nat.simps [simp del]

definition str_int :: "int \<Rightarrow> string" where
  "str_int i = (if i < 0 then ''-'' @ str_nat (nat (- i)) else str_nat (nat i))"

text \<open>\<open>str(v)\<close>, which is what an f-string and \<open>str.format\<close> insert.\<close>

fun py_str :: "pyval \<Rightarrow> string" where
  "py_str PNone = ''None''"
| "py_str (PBool b) = (if b then ''True'' else ''False'')"
| "py_str (PInt n) = str_int n"
| "py_str (PStr s) = s"

subsection \<open>Suite selection (main, lines 173-174)\<close>

text \<open>
  \<^verbatim>\<open>
  if args.suite == "smoke":
      fixtures = [f for f in fixtures if f.get("suite") == "smoke"]
  \<close>
  A value equals the string \<open>"smoke"\<close> only when it is that string.
\<close>

definition select_suite :: "string \<Rightarrow> fixture list \<Rightarrow> fixture list" where
  "select_suite suite fixtures =
     (if suite = ''smoke''
      then filter (\<lambda>f. dict_get f ''suite'' = PStr ''smoke'') fixtures
      else fixtures)"

text \<open>What the specification words describe: keep the fixtures whose tag is the requested one.\<close>

definition filter_by_tag :: "string \<Rightarrow> fixture list \<Rightarrow> fixture list" where
  "filter_by_tag suite fixtures = filter (\<lambda>f. dict_get f ''suite'' = PStr suite) fixtures"

subsection \<open>Exceptions\<close>

text \<open>
  \<open>RuntimeError\<close> carries its message. \<open>OSError\<close> carries the name of the subclass
  raised by a file operation. \<open>CalledProcessError\<close> is what
  \<open>subprocess.run(..., check=True)\<close> raises on a non-zero exit status.
\<close>

datatype pyerror =
    RuntimeError string
  | KeyError string
  | TypeError
  | ValueError
  | OSError string
  | URLError string
  | JSONDecodeError
  | AttributeError
  | CalledProcessError int "string list"

subsection \<open>Paths (pathlib on a POSIX system)\<close>

text \<open>
  A path is its root (\<open>''''\<close>, \<open>''/''\<close> or \<open>''//''\<close>) and its components. Parsing a
  string drops empty components and \<open>.\<close>; \<open>..\<close> is kept, as pathlib keeps it.
\<close>

datatype path = PosixPath (root: string) (parts: "string list")

fun split_slash :: "string \<Rightarrow> string list" where
  "split_slash [] = [[]]"
| "split_slash (c # cs) =
     (if c = CHR ''/'' then [] # split_slash cs
      else (case split_slash cs of [] \<Rightarrow> [[c]] | w # ws \<Rightarrow> (c # w) # ws))"

definition root_of :: "string \<Rightarrow> string" where
  "root_of s =
     (if take 1 s \<noteq> ''/'' then ''''
      else if take 2 s = ''//'' \<and> take 3 s \<noteq> ''///'' then ''//''
      else ''/'')"

text \<open>\<open>Path(s)\<close>.\<close>

definition Path :: "string \<Rightarrow> path" where
  "Path s = PosixPath (root_of s) (filter (\<lambda>w. w \<noteq> [] \<and> w \<noteq> ''.'') (split_slash s))"

text \<open>\<open>p / s\<close>: an absolute right operand replaces the left one.\<close>

definition path_div :: "path \<Rightarrow> string \<Rightarrow> path" where
  "path_div p s =
     (let q = Path s in
      if root q \<noteq> [] then q else PosixPath (root p) (parts p @ parts q))"

fun join_with :: "string \<Rightarrow> string list \<Rightarrow> string" where
  "join_with sep [] = []"
| "join_with sep [x] = x"
| "join_with sep (x # y # ys) = x @ sep @ join_with sep (y # ys)"

text \<open>\<open>str(p)\<close>.\<close>

definition path_str :: "path \<Rightarrow> string" where
  "path_str p =
     (if root p = [] \<and> parts p = [] then ''.''
      else root p @ join_with ''/'' (parts p))"

text \<open>\<open>p.parent\<close>.\<close>

definition path_parent :: "path \<Rightarrow> path" where
  "path_parent p = PosixPath (root p) (butlast (parts p))"

subsection \<open>The machine: file system, process environment, what has happened\<close>

datatype node = File string | Dir

text \<open>
  The trace records every effect of the script on the outside world, in the order the
  script performs it: a directory creation, a network fetch, a build, a run of the
  binary under test (with its command line and the environment handed to it), a log
  written, the report written, a line printed.
\<close>

datatype event =
    EvMkdir string
  | EvFetch string string
  | EvBuild "string list"
  | EvSpawn "string list" "string \<rightharpoonup> string"
  | EvWriteLog string string
  | EvWriteReport string string
  | EvPrint string

text \<open>
  The file system maps the string of a path to what is there. Resolution by the
  operating system (symbolic links, \<open>..\<close>, the working directory) is not modelled:
  two paths are the same file when their strings are equal.
\<close>

record sys =
  fs :: "string \<rightharpoonup> node"
  environ :: "string \<rightharpoonup> string"
  trace :: "event list"

text \<open>What \<open>subprocess.run\<close> returns for the binary under test, with the wall-clock
  seconds between the two readings of \<open>time.time()\<close> around it (a finite double, as
  the rational number it denotes) and the file system the process leaves behind.\<close>

record proc =
  returncode :: int
  stdout :: string
  seconds :: rat
  fs_after :: "string \<rightharpoonup> node"

type_synonym matrix = "string \<rightharpoonup> fixture list"

text \<open>
  The collaborators and the library functions the script calls, as parameters. Each one
  may depend on the state of the machine at the time of the call (so on everything that
  happened before), and each one may fail:
  \<^item> \<open>json_loads\<close>: \<open>json.loads\<close> on the text of the matrix file, a dictionary whose
    values are lists of fixtures;
  \<^item> \<open>int_of_str\<close>: \<open>int(s)\<close> for a string, \<open>None\<close> for \<open>ValueError\<close>;
  \<^item> \<open>cargo\<close>: the build tool run on a command line, giving its exit status and the
    file system after it, or the exception of a failed launch;
  \<^item> \<open>fetch\<close>: the content behind a URL, or the exception of the failed transfer;
  \<^item> \<open>player\<close>: the binary under test run on a command line in an environment, or
    the exception of a failed launch;
  \<^item> \<open>platform_info\<close>, \<open>strftime\<close>: \<open>platform.platform()\<close> and the formatted
    local time.
\<close>

record ext =
  json_loads :: "string \<Rightarrow> pyerror + matrix"
  int_of_str :: "string \<Rightarrow> int option"
  cargo :: "sys \<Rightarrow> string list \<Rightarrow> pyerror + (int \<times> (string \<rightharpoonup> node))"
  fetch :: "sys \<Rightarrow> string \<Rightarrow> pyerror + string"
  player :: "sys \<Rightarrow> string list \<Rightarrow> (string \<rightharpoonup> string) \<Rightarrow> pyerror + proc"
  platform_info :: string
  strftime :: "sys \<Rightarrow> string"

definition emit :: "event \<Rightarrow> sys \<Rightarrow> sys" where
  "emit e s = s\<lparr>trace := trace s @ [e]\<rparr>"

text \<open>\<open>print(line)\<close>.\<close>

definition print :: "string \<Rightarrow> sys \<Rightarrow> sys" where
  "print line s = emit (EvPrint line) s"

text \<open>\<open>p.exists()\<close>: the working directory and the root always exist.\<close>

definition path_exists :: "path \<Rightarrow> sys \<Rightarrow> bool" where
  "path_exists p s = (parts p = [] \<or> fs s (path_str p) \<noteq> None)"

definition is_dir :: "path \<Rightarrow> sys \<Rightarrow> bool" where
  "is_dir p s = (parts p = [] \<or> fs s (path_str p) = Some Dir)"

definition is_file :: "sys \<Rightarrow> string \<Rightarrow> bool" where
  "is_file s k = (case fs s k of Some (File t) \<Rightarrow> True | _ \<Rightarrow> False)"

text \<open>The path and its ancestors below the root, as strings, outermost first.\<close>

definition chain :: "path \<Rightarrow> string list" where
  "chain p = map (\<lambda>k. path_str (PosixPath (root p) (take k (parts p)))) [1..<Suc (length (parts p))]"

text \<open>
  \<open>p.mkdir(parents=True, exist_ok=True)\<close>: every missing directory on the way is
  created; a regular file at the path is \<open>FileExistsError\<close>, one on the way to it is
  \<open>NotADirectoryError\<close>.
\<close>

definition mkdir :: "path \<Rightarrow> sys \<Rightarrow> pyerror + sys" where
  "mkdir p s =
     (case filter (is_file s) (chain p) of
        k # ks \<Rightarrow>
          Inl (OSError (if k = path_str p then ''FileExistsError'' else ''NotADirectoryError''))
      | [] \<Rightarrow>
          Inr (emit (EvMkdir (path_str p))
                 (s\<lparr>fs := (\<lambda>k. if k \<in> set (chain p) then Some Dir else fs s k)\<rparr>)))"

text \<open>
  Opening a path for writing and writing a text to it: \<open>IsADirectoryError\<close> when the path
  is a directory, \<open>NotADirectoryError\<close> when its parent is a regular file,
  \<open>FileNotFoundError\<close> when its parent is missing. A write that fails leaves the file
  system as it was.
\<close>

definition write_file :: "path \<Rightarrow> string \<Rightarrow> sys \<Rightarrow> pyerror + sys" where
  "write_file p text s =
     (if is_dir p s then Inl (OSError ''IsADirectoryError'')
      else if is_file s (path_str (path_parent p)) then Inl (OSError ''NotADirectoryError'')
      else if \<not> is_dir (path_parent p) s then Inl (OSError ''FileNotFoundError'')
      else Inr (s\<lparr>fs := (fs s)(path_str p \<mapsto> File text)\<rparr>))"

text \<open>\<open>p.read_text()\<close>.\<close>

definition read_text :: "path \<Rightarrow> sys \<Rightarrow> pyerror + string" where
  "read_text p s =
     (if parts p = [] then Inl (OSError ''IsADirectoryError'')
      else (case fs s (path_str p) of
              None \<Rightarrow> Inl (OSError ''FileNotFoundError'')
            | Some Dir \<Rightarrow> Inl (OSError ''IsADirectoryError'')
            | Some (File t) \<Rightarrow> Inr t))"

subsection \<open>load_fixtures\<close>

text \<open>
  \<^verbatim>\<open>
  data = json.loads(path.read_text())
  fixtures = data.get("fixtures", [])
  if not fixtures:
      raise RuntimeError("No fixtures found in matrix file.")
  return fixtures
  \<close>
\<close>

definition load_fixtures :: "ext \<Rightarrow> path \<Rightarrow> sys \<Rightarrow> pyerror + fixture list" where
  "load_fixtures X p s =
     (case read_text p s of
        Inl e \<Rightarrow> Inl e
      | Inr t \<Rightarrow>
          (case json_loads X t of
             Inl e \<Rightarrow> Inl e
           | Inr data \<Rightarrow>
               (let fixtures = (case data ''fixtures'' of None \<Rightarrow> [] | Some fl \<Rightarrow> fl) in
                if fixtures = [] then Inl (RuntimeError ''No fixtures found in matrix file.'')
                else Inr fixtures)))"

subsection \<open>ensure_download\<close>

text \<open>
  \<^verbatim>\<open>
  filename = fixture.get("file")
  url = fixture.get("url")
  if not filename or not url:
      raise RuntimeError(f"Fixture {fixture.get('id')} missing file or url.")
  downloads_dir.mkdir(parents=True, exist_ok=True)
  target_path = downloads_dir / filename
  if target_path.exists():
      return target_path
  print(f"Downloading {fixture['id']} from {url}...")
  urllib.request.urlretrieve(url, target_path)
  return target_path
  \<close>
  \<open>downloads_dir / filename\<close> is \<open>TypeError\<close> for a file name that is not a string,
  \<open>fixture['id']\<close> is \<open>KeyError\<close> for a fixture without id, and \<open>urlretrieve\<close> is
  \<open>TypeError\<close> for a URL that is not a string. \<open>urlretrieve\<close> opens the URL, then the
  target file; a transfer that fails is taken to leave no file behind.
\<close>

definition missing_msg :: "fixture \<Rightarrow> string" where
  "missing_msg fixture = ''Fixture '' @ py_str (dict_get fixture ''id'') @ '' missing file or url.''"

definition urlretrieve :: "ext \<Rightarrow> string \<Rightarrow> path \<Rightarrow> sys \<Rightarrow> (pyerror + unit) \<times> sys" where
  "urlretrieve X url target s =
     (let s1 = emit (EvFetch url (path_str target)) s in
      case fetch X s url of
        Inl e \<Rightarrow> (Inl e, s1)
      | Inr content \<Rightarrow>
          (case write_file target content s1 of
             Inl e \<Rightarrow> (Inl e, s1)
           | Inr s2 \<Rightarrow> (Inr (), s2)))"

definition ensure_download :: "ext \<Rightarrow> fixture \<Rightarrow> path \<Rightarrow> sys \<Rightarrow> (pyerror + path) \<times> sys" where
  "ensure_download X fixture downloads_dir s =
     (let filename = dict_get fixture ''file'';
          url = dict_get fixture ''url'' in
      if \<not> truthy filename \<or> \<not> truthy url then (Inl (RuntimeError (missing_msg fixture)), s)
      else
        (case mkdir downloads_dir s of
           Inl e \<Rightarrow> (Inl e, s)
         | Inr s1 \<Rightarrow>
             (case filename of
                PStr name \<Rightarrow>
                  (let target_path = path_div downloads_dir name in
                   if path_exists target_path s1 then (Inr target_path, s1)
                   else
                     (case fixture ''id'' of
                        None \<Rightarrow> (Inl (KeyError ''id''), s1)
                      | Some fid \<Rightarrow>
                          (let s2 = print (''Downloading '' @ py_str fid @ '' from ''
                                            @ py_str url @ ''...'') s1 in
                           case url of
                             PStr u \<Rightarrow>
                               (case urlretrieve X u target_path s2 of
                                  (Inl e, s3) \<Rightarrow> (Inl e, s3)
                                | (Inr _, s3) \<Rightarrow> (Inr target_path, s3))
                           | _ \<Rightarrow> (Inl TypeError, s2))))
              | _ \<Rightarrow> (Inl TypeError, s1))))"

subsection \<open>build_binary\<close>

text \<open>
  \<^verbatim>\<open>
  cmd = ["cargo", "build", "-p", "slain-player"]
  if release:
      cmd.append("--release")
  subprocess.run(cmd, check=True)
  binary = Path("target") / ("release" if release else "debug") / "slain"
  if not binary.exists():
      raise RuntimeError(f"Expected binary not found at {binary}")
  return binary
  \<close>
\<close>

definition binary_path :: "bool \<Rightarrow> path" where
  "binary_path release =
     path_div (path_div (Path ''target'') (if release then ''release'' else ''debug'')) ''slain''"

definition build_binary :: "ext \<Rightarrow> bool \<Rightarrow> sys \<Rightarrow> (pyerror + path) \<times> sys" where
  "build_binary X release s =
     (let cmd = [''cargo'', ''build'', ''-p'', ''slain-player'']
                  @ (if release then [''--release''] else []);
          s1 = emit (EvBuild cmd) s in
      case cargo X s cmd of
        Inl e \<Rightarrow> (Inl e, s1)
      | Inr (status, files) \<Rightarrow>
          (let s2 = s1\<lparr>fs := files\<rparr> in
           if status \<noteq> 0 then (Inl (CalledProcessError status cmd), s2)
           else
             (let binary = binary_path release in
              if \<not> path_exists binary s2
              then (Inl (RuntimeError (''Expected binary not found at '' @ path_str binary)), s2)
              else (Inr binary, s2))))"

subsection \<open>run_fixture\<close>

text \<open>\<open>int(v)\<close>.\<close>

fun py_int :: "ext \<Rightarrow> pyval \<Rightarrow> pyerror + int" where
  "py_int X PNone = Inl TypeError"
| "py_int X (PBool b) = Inr (if b then 1 else 0)"
| "py_int X (PInt n) = Inr n"
| "py_int X (PStr s) = (case int_of_str X s of None \<Rightarrow> Inl ValueError | Some n \<Rightarrow> Inr n)"

text \<open>
  \<open>f"{x:.2f}"\<close> for a finite double \<open>x\<close>: the decimal with two digits after the point
  that is nearest to the exact value of \<open>x\<close>, ties to the even one, the sign kept.
\<close>

definition round_half_even :: "rat \<Rightarrow> int" where
  "round_half_even x =
     (let f = \<lfloor>x\<rfloor>; r = x - of_int f in
      if r < 1 / 2 then f
      else if 1 / 2 < r then f + 1
      else if even f then f else f + 1)"

definition format_2f :: "rat \<Rightarrow> string" where
  "format_2f x =
     (let h = nat (round_half_even (\<bar>x\<bar> * 100)) in
      (if x < 0 then ''-'' else '''')
      @ str_nat (h div 100) @ ''.''
      @ [''0123456789'' ! (h div 10 mod 10), ''0123456789'' ! (h mod 10)])"

text \<open>\<open>env = os.environ.copy(); env.setdefault("RUST_LOG", "info")\<close>: the copy is a
  new dictionary, so the update is to the copy alone.\<close>

definition setdefault :: "(string \<rightharpoonup> string) \<Rightarrow> string \<Rightarrow> string \<Rightarrow> (string \<rightharpoonup> string)" where
  "setdefault d k v = (case d k of None \<Rightarrow> d(k \<mapsto> v) | Some _ \<Rightarrow> d)"

definition child_env :: "sys \<Rightarrow> (string \<rightharpoonup> string)" where
  "child_env s = setdefault (environ s) ''RUST_LOG'' ''info''"

definition fixture_cmd :: "path \<Rightarrow> path \<Rightarrow> int \<Rightarrow> string list" where
  "fixture_cmd binary file_path frames =
     [path_str binary, ''--headless'', ''--input'', path_str file_path,
      ''--frames'', str_int frames]"

record result =
  r_id :: pyval
  r_codec :: pyval
  r_container :: pyval
  r_frames :: int
  r_result :: string
  r_log :: string
  r_duration :: rat

text \<open>The texts written to the log handle, one \<open>handle.write\<close> each, in order.\<close>

definition log_writes :: "fixture \<Rightarrow> pyval \<Rightarrow> path \<Rightarrow> int \<Rightarrow> proc \<Rightarrow> string list" where
  "log_writes fixture fixture_id file_path frames p =
     [''fixture: '' @ py_str fixture_id @ ''\<newline>'',
      ''codec: '' @ py_str (dict_get fixture ''codec'') @ ''\<newline>'',
      ''container: '' @ py_str (dict_get fixture ''container'') @ ''\<newline>'',
      ''file: '' @ path_str file_path @ ''\<newline>'',
      ''frames: '' @ str_int frames @ ''\<newline>'',
      ''exit_code: '' @ str_int (returncode p) @ ''\<newline>'',
      ''duration_seconds: '' @ format_2f (seconds p) @ ''\<newline>'',
      ''\<newline>--- output ---\<newline>'',
      stdout p]"

text \<open>
  \<^verbatim>\<open>
  fixture_id = fixture["id"]
  frames = int(fixture.get("frames", 60))
  log_path = log_dir / f"{fixture_id}.log"
  cmd = [str(binary), "--headless", "--input", str(file_path), "--frames", str(frames)]
  env = os.environ.copy()
  env.setdefault("RUST_LOG", "info")
  start = time.time()
  proc = subprocess.run(cmd, stdout=subprocess.PIPE, stderr=subprocess.STDOUT,
                        env=env, text=True)
  duration = time.time() - start
  log_dir.mkdir(parents=True, exist_ok=True)
  with log_path.open("w", encoding="utf-8") as handle:
      handle.write(...)   # nine writes
  return {"id": fixture_id, "codec": fixture.get("codec"),
          "container": fixture.get("container"), "frames": frames,
          "result": "pass" if proc.returncode == 0 else "fail",
          "log": str(log_path), "duration": duration}
  \<close>
\<close>

definition run_fixture ::
  "ext \<Rightarrow> path \<Rightarrow> fixture \<Rightarrow> path \<Rightarrow> path \<Rightarrow> sys \<Rightarrow> (pyerror + result) \<times> sys" where
  "run_fixture X binary fixture file_path logdir s =
     (case fixture ''id'' of
        None \<Rightarrow> (Inl (KeyError ''id''), s)
      | Some fixture_id \<Rightarrow>
          (case py_int X (dict_get_default fixture ''frames'' (PInt 60)) of
             Inl e \<Rightarrow> (Inl e, s)
           | Inr frames \<Rightarrow>
               (let log_path = path_div logdir (py_str fixture_id @ ''.log'');
                    cmd = fixture_cmd binary file_path frames;
                    env = child_env s;
                    s1 = emit (EvSpawn cmd env) s in
                case player X s cmd env of
                  Inl e \<Rightarrow> (Inl e, s1)
                | Inr p \<Rightarrow>
                    (let s2 = s1\<lparr>fs := fs_after p\<rparr> in
                     case mkdir logdir s2 of
                       Inl e \<Rightarrow> (Inl e, s2)
                     | Inr s3 \<Rightarrow>
                         (let text = concat (log_writes fixture fixture_id file_path frames p) in
                          case write_file log_path text s3 of
                            Inl e \<Rightarrow> (Inl e, s3)
                          | Inr s4 \<Rightarrow>
                              (Inr \<lparr>r_id = fixture_id,
                                    r_codec = dict_get fixture ''codec'',
                                    r_container = dict_get fixture ''container'',
                                    r_frames = frames,
                                    r_result = (if returncode p = 0 then ''pass'' else ''fail''),
                                    r_log = path_str log_path,
                                    r_duration = seconds p\<rparr>,
                               emit (EvWriteLog (path_str log_path) text) s4))))))"

subsection \<open>write_report\<close>

text \<open>
  \<^verbatim>\<open>
  report_path.parent.mkdir(parents=True, exist_ok=True)
  platform_info = platform.platform()
  report_lines = [ ...eight header lines... ]
  for result in results:
      report_lines.append("| {id} | {codec} | {container} | {frames} | {result} |".format(**result))
  report_lines.append("")
  report_lines.append("## Logs")
  for result in results:
      report_lines.append(f"- {result['id']}: {result['log']}")
  report_path.write_text("\n".join(report_lines), encoding="utf-8")
  \<close>
\<close>

definition report_row :: "result \<Rightarrow> string" where
  "report_row r =
     ''| '' @ py_str (r_id r) @ '' | '' @ py_str (r_codec r) @ '' | ''
     @ py_str (r_container r) @ '' | '' @ str_int (r_frames r) @ '' | '' @ r_result r @ '' |''"

definition report_lines :: "ext \<Rightarrow> result list \<Rightarrow> string \<Rightarrow> sys \<Rightarrow> string list" where
  "report_lines X results suite s =
     [''# Headless Playback Report'',
      '''',
      ''- Suite: '' @ suite,
      ''- Platform: '' @ platform_info X,
      ''- Generated: '' @ strftime X s,
      '''',
      ''| Fixture | Codec | Container | Frames | Result |'',
      ''| --- | --- | --- | --- | --- |'']
     @ map report_row results
     @ ['''', ''## Logs'']
     @ map (\<lambda>r. ''- '' @ py_str (r_id r) @ '': '' @ r_log r) results"

definition write_report ::
  "ext \<Rightarrow> result list \<Rightarrow> string \<Rightarrow> path \<Rightarrow> sys \<Rightarrow> (pyerror + unit) \<times> sys" where
  "write_report X results suite report_path s =
     (case mkdir (path_parent report_path) s of
        Inl e \<Rightarrow> (Inl e, s)
      | Inr s1 \<Rightarrow>
          (let text = join_with ''\<newline>'' (report_lines X results suite s1) in
           case write_file report_path text s1 of
             Inl e \<Rightarrow> (Inl e, s1)
           | Inr s2 \<Rightarrow> (Inr (), emit (EvWriteReport (path_str report_path) text) s2)))"

subsection \<open>main\<close>

text \<open>
  The namespace \<open>parse_args\<close> returns. The parser admits \<open>smoke\<close> and \<open>full\<close> only
  for \<open>--suite\<close> (its \<open>choices\<close>).
\<close>

record args =
  a_fixtures :: string
  a_suite :: string
  a_log_dir :: string
  a_report :: string
  a_skip_build :: bool
  a_release :: bool

text \<open>
  The loop of main, with the variable \<open>binary\<close> (\<open>None\<close> until the first iteration
  when the build was skipped) and the list \<open>results\<close> it appends to:
  \<^verbatim>\<open>
  for fixture in fixtures:
      file_path = ensure_download(fixture, downloads_dir)
      if binary is None:
          binary = Path("target") / ("release" if args.release else "debug") / "slain"
      results.append(run_fixture(binary, fixture, file_path, log_dir))
  \<close>
\<close>

fun run_loop ::
  "ext \<Rightarrow> args \<Rightarrow> path \<Rightarrow> path \<Rightarrow> fixture list \<Rightarrow> path option \<Rightarrow> result list \<Rightarrow> sys
     \<Rightarrow> (pyerror + result list) \<times> sys" where
  "run_loop X a downloads_dir logdir [] binary results s = (Inr results, s)"
| "run_loop X a downloads_dir logdir (fixture # rest) binary results s =
     (case ensure_download X fixture downloads_dir s of
        (Inl e, s1) \<Rightarrow> (Inl e, s1)
      | (Inr file_path, s1) \<Rightarrow>
          (let b = (case binary of None \<Rightarrow> binary_path (a_release a) | Some b0 \<Rightarrow> b0) in
           case run_fixture X b fixture file_path logdir s1 of
             (Inl e, s2) \<Rightarrow> (Inl e, s2)
           | (Inr r, s2) \<Rightarrow>
               run_loop X a downloads_dir logdir rest (Some b) (results @ [r]) s2))"

text \<open>\<open>binary = build_binary(args.release) if not args.skip_build else None\<close>.\<close>

definition provision :: "ext \<Rightarrow> args \<Rightarrow> sys \<Rightarrow> (pyerror + path option) \<times> sys" where
  "provision X a s =
     (if \<not> a_skip_build a
      then (case build_binary X (a_release a) s of
              (Inl e, s1) \<Rightarrow> (Inl e, s1)
            | (Inr b, s1) \<Rightarrow> (Inr (Some b), s1))
      else (Inr None, s))"

text \<open>
  main up to the end of the loop (lines 169-189): load, select, guard, provision, run.
\<close>

definition run_phase :: "ext \<Rightarrow> args \<Rightarrow> sys \<Rightarrow> (pyerror + result list) \<times> sys" where
  "run_phase X a s =
     (case load_fixtures X (Path (a_fixtures a)) s of
        Inl e \<Rightarrow> (Inl e, s)
      | Inr catalog \<Rightarrow>
          (let fixtures = select_suite (a_suite a) catalog in
           if fixtures = [] then (Inl (RuntimeError ''No fixtures selected for suite.''), s)
           else
             (let downloads_dir = Path ''slain-player/fixtures/downloads'' in
              case provision X a s of
                (Inl e, s1) \<Rightarrow> (Inl e, s1)
              | (Inr binary, s1) \<Rightarrow>
                  run_loop X a downloads_dir (Path (a_log_dir a)) fixtures binary [] s1)))"

text \<open>
  The rest of main (lines 191-202):
  \<^verbatim>\<open>
  report_path = Path(args.report)
  write_report(results, args.suite, report_path)
  failures = [result for result in results if result["result"] != "pass"]
  if failures:
      print("Headless playback failures detected:")
      for failure in failures:
          print(f"- {failure['id']}: {failure['log']}")
      return 1
  print(f"Headless playback completed successfully. Report: {report_path}")
  return 0
  \<close>
\<close>

definition finish :: "ext \<Rightarrow> args \<Rightarrow> result list \<Rightarrow> sys \<Rightarrow> (pyerror + int) \<times> sys" where
  "finish X a results s =
     (let report_path = Path (a_report a) in
      case write_report X results (a_suite a) report_path s of
        (Inl e, s1) \<Rightarrow> (Inl e, s1)
      | (Inr _, s1) \<Rightarrow>
          (let failures = filter (\<lambda>r. r_result r \<noteq> ''pass'') results in
           if failures \<noteq> []
           then (Inr 1,
                 fold (\<lambda>r. print (''- '' @ py_str (r_id r) @ '': '' @ r_log r)) failures
                   (print ''Headless playback failures detected:'' s1))
           else (Inr 0,
                 print (''Headless playback completed successfully. Report: ''
                        @ path_str report_path) s1)))"

definition main :: "ext \<Rightarrow> args \<Rightarrow> sys \<Rightarrow> (pyerror + int) \<times> sys" where
  "main X a s =
     (case run_phase X a s of
        (Inl e, s1) \<Rightarrow> (Inl e, s1)
      | (Inr results, s1) \<Rightarrow> finish X a results s1)"

text \<open>
  \<open>sys.exit(main())\<close>: the exit status of the process is the value main returns; an
  exception that leaves main is not caught anywhere, so the interpreter prints the
  traceback and exits with status 1.
\<close>

definition exit_status :: "ext \<Rightarrow> args \<Rightarrow> sys \<Rightarrow> int" where
  "exit_status X a s = (case fst (main X a s) of Inl e \<Rightarrow> 1 | Inr code \<Rightarrow> code)"

text \<open>The events of a run: what the trace holds beyond the trace at the start.\<close>

definition events_since :: "sys \<Rightarrow> sys \<Rightarrow> event list" where
  "events_since s s' = drop (length (trace s)) (trace s')"

fun is_report_write :: "event \<Rightarrow> bool" where
  "is_report_write (EvWriteReport p t) = True"
| "is_report_write e = False"







text \<open>From \<open>s\<close> to \<open>s'\<close> the trace only grew, and by no write of the report.\<close>

definition no_report_added :: "sys \<Rightarrow> sys \<Rightarrow> bool" where
  "no_report_added s s' =
     (prefix (trace s) (trace s') \<and> filter is_report_write (events_since s s') = [])"



text \<open>The kind of an event, for reading a trace.\<close>

fun ev_name :: "event \<Rightarrow> string" where
  "ev_name (EvMkdir p) = ''mkdir''"
| "ev_name (EvFetch u p) = ''fetch''"
| "ev_name (EvBuild c) = ''build''"
| "ev_name (EvSpawn c e) = ''spawn''"
| "ev_name (EvWriteLog p t) = ''write_log''"
| "ev_name (EvWriteReport p t) = ''write_report''"
| "ev_name (EvPrint l) = ''print''"

subsection \<open>A stub world for concrete runs\<close>

text \<open>
  A machine whose matrix file parses to the given catalog, whose build leaves a debug
  binary, whose network serves every URL, and whose binary under test prints \<open>boom\<close>
  and exits with the given status after a quarter of a second.
\<close>

definition stub_ext :: "fixture list \<Rightarrow> int \<Rightarrow> ext" where
  "stub_ext catalog status =
     \<lparr>json_loads = (\<lambda>t. Inr [''fixtures'' \<mapsto> catalog]),
      int_of_str = (\<lambda>t. None),
      cargo = (\<lambda>s cmd. Inr (0, (fs s)(''target/debug/slain'' \<mapsto> File ''ELF''))),
      fetch = (\<lambda>s u. Inr ''media''),
      player = (\<lambda>s cmd env.
         Inr \<lparr>returncode = status, stdout = ''boom'', seconds = 1 / 4, fs_after = fs s\<rparr>),
      platform_info = ''Linux'',
      strftime = (\<lambda>s. ''2024-01-01 00:00:00 UTC'')\<rparr>"

definition stub_sys :: sys where
  "stub_sys = \<lparr>fs = [''m.json'' \<mapsto> File ''{}''], environ = Map.empty, trace = []\<rparr>"

definition stub_args :: "string \<Rightarrow> args" where
  "stub_args suite =
     \<lparr>a_fixtures = ''m.json'', a_suite = suite, a_log_dir = ''logs'',
      a_report = ''out/report.md'', a_skip_build = False, a_release = False\<rparr>"

definition fx_a :: fixture where
  "fx_a = [''id'' \<mapsto> PStr ''a'', ''file'' \<mapsto> PStr ''a.mp4'',
           ''url'' \<mapsto> PStr ''http://x/a.mp4'', ''suite'' \<mapsto> PStr ''smoke'']"

text \<open>A fixture with no \<open>url\<close>.\<close>

definition fx_b :: fixture where
  "fx_b = [''id'' \<mapsto> PStr ''b'', ''file'' \<mapsto> PStr ''b.mp4'', ''suite'' \<mapsto> PStr ''smoke'']"

text \<open>A fixture tagged \<open>full\<close>.\<close>

definition fx_full :: fixture where
  "fx_full = [''id'' \<mapsto> PStr ''f'', ''file'' \<mapsto> PStr ''f.mp4'',
              ''url'' \<mapsto> PStr ''http://x/f.mp4'', ''suite'' \<mapsto> PStr ''full'']"

text \<open>A fixture whose \<open>file\<close> is the empty string.\<close>

definition fx_c :: fixture where
  "fx_c = [''id'' \<mapsto> PStr ''c'', ''file'' \<mapsto> PStr [], ''url'' \<mapsto> PStr ''http://x/c.mp4'']"

text \<open>A machine with the asset of \<open>fx_a\<close> in the cache and \<open>RUST_LOG\<close> set.\<close>

definition cached_sys :: sys where
  "cached_sys =
     \<lparr>fs = [''slain-player'' \<mapsto> Dir, ''slain-player/fixtures'' \<mapsto> Dir,
             ''slain-player/fixtures/downloads'' \<mapsto> Dir,
             ''slain-player/fixtures/downloads/a.mp4'' \<mapsto> File ''media''],
      environ = [''RUST_LOG'' \<mapsto> ''debug''], trace = []\<rparr>"




section \<open>Properties\<close>

subsection \<open>Suite selection\<close>

text \<open>
  C1, as stated, fails for the suite \<open>full\<close>: a catalog holding one fixture tagged
  \<open>smoke\<close> is selected whole, while the fixtures tagged \<open>full\<close> are none.
\<close>

theorem select_suite_full_keeps_smoke:
  "select_suite ''full'' [[''id'' \<mapsto> PStr ''a'', ''suite'' \<mapsto> PStr ''smoke'']]
     \<noteq> filter_by_tag ''full'' [[''id'' \<mapsto> PStr ''a'', ''suite'' \<mapsto> PStr ''smoke'']]"
  by (simp add: select_suite_def filter_by_tag_def dict_get_def)

text \<open>
  C1 (amended): for the suite \<open>smoke\<close> the selection is exactly the fixtures whose
  \<open>suite\<close> field equals \<open>smoke\<close>, in catalog order: it is a subsequence of the catalog,
  every selected fixture carries the tag, and every fixture of the catalog carrying the
  tag is selected.
\<close>

theorem select_suite_smoke:
  "select_suite ''smoke'' catalog = filter_by_tag ''smoke'' catalog
   \<and> subseq (select_suite ''smoke'' catalog) catalog
   \<and> (\<forall>f \<in> set catalog.
        f \<in> set (select_suite ''smoke'' catalog) \<longleftrightarrow> dict_get f ''suite'' = PStr ''smoke'')"
  by (auto simp: select_suite_def filter_by_tag_def)

theorem select_suite_smoke_witness:
  "select_suite ''smoke''
     [[''id'' \<mapsto> PStr ''b'', ''suite'' \<mapsto> PStr ''full''],
      [''id'' \<mapsto> PStr ''a'', ''suite'' \<mapsto> PStr ''smoke'']]
   = [[''id'' \<mapsto> PStr ''a'', ''suite'' \<mapsto> PStr ''smoke'']]"
  using select_suite_smoke
    [of "[[''id'' \<mapsto> PStr ''b'', ''suite'' \<mapsto> PStr ''full''],
          [''id'' \<mapsto> PStr ''a'', ''suite'' \<mapsto> PStr ''smoke'']]"]
  by (simp add: filter_by_tag_def dict_get_def)

text \<open>
  C9: for the suite \<open>full\<close> nothing is filtered: the selection is the whole catalog,
  whatever the tags of its fixtures.
\<close>

theorem select_suite_full:
  "select_suite ''full'' catalog = catalog"
  by (simp add: select_suite_def)

subsection \<open>Basic facts about the machine\<close>

lemma emit_simps [simp]:
  "fs (emit e s) = fs s" "environ (emit e s) = environ s" "trace (emit e s) = trace s @ [e]"
  by (simp_all add: emit_def)

lemma print_simps [simp]:
  "fs (print l s) = fs s" "environ (print l s) = environ s"
  "trace (print l s) = trace s @ [EvPrint l]"
  by (simp_all add: print_def)

lemma events_since_same [simp]: "events_since s s = []"
  by (simp add: events_since_def)

lemma events_since_append: "trace s' = trace s @ evs \<Longrightarrow> events_since s s' = evs"
  by (simp add: events_since_def)

lemma mkdir_Inr:
  assumes "mkdir p s = Inr s1"
  shows "fs s1 = (\<lambda>k. if k \<in> set (chain p) then Some Dir else fs s k)"
    and "trace s1 = trace s @ [EvMkdir (path_str p)]"
    and "environ s1 = environ s"
    and "filter (is_file s) (chain p) = []"
  using assms by (auto simp: mkdir_def split: list.splits)

lemma mkdir_keeps_exists:
  "mkdir p s = Inr s1 \<Longrightarrow> path_exists q s \<Longrightarrow> path_exists q s1"
  by (auto simp: path_exists_def mkdir_Inr(1))

text \<open>Creating a directory that was just created changes nothing but the trace.\<close>

lemma mkdir_again:
  assumes "mkdir p s = Inr s1"
  shows "mkdir p s1 = Inr (emit (EvMkdir (path_str p)) s1)"
proof -
  have f: "fs s1 = (\<lambda>k. if k \<in> set (chain p) then Some Dir else fs s k)"
    using assms by (rule mkdir_Inr(1))
  have "\<forall>k \<in> set (chain p). \<not> is_file s1 k"
    by (simp add: is_file_def f)
  then have none: "filter (is_file s1) (chain p) = []"
    by (simp add: filter_empty_conv)
  have same: "(\<lambda>k. if k \<in> set (chain p) then Some Dir else fs s1 k) = fs s1"
    by (auto simp: f)
  show ?thesis
    by (simp add: mkdir_def none same)
qed


subsection \<open>ensure_download\<close>

lemma ensure_download_invalid:
  "\<not> truthy (dict_get f ''file'') \<or> \<not> truthy (dict_get f ''url'')
   \<Longrightarrow> ensure_download X f dd s = (Inl (RuntimeError (missing_msg f)), s)"
  by (auto simp: ensure_download_def)

text \<open>
  C5: for a fixture (with its \<open>file\<close> and \<open>url\<close>) whose target
  \<open>downloads_dir / file\<close> exists, once the cache directory is there ensure_download
  returns that path; the only event is the directory creation, so nothing is fetched;
  and a second call returns the same path and leaves the file system as it is.
\<close>

theorem ensure_download_cached:
  assumes "fixture ''file'' = Some (PStr name)" and "name \<noteq> []"
    and "truthy (dict_get fixture ''url'')"
    and "mkdir dd s = Inr s1"
    and "path_exists (path_div dd name) s"
  shows "ensure_download X fixture dd s = (Inr (path_div dd name), s1)
       \<and> events_since s s1 = [EvMkdir (path_str dd)]
       \<and> ensure_download X fixture dd s1
           = (Inr (path_div dd name), emit (EvMkdir (path_str dd)) s1)
       \<and> fs (emit (EvMkdir (path_str dd)) s1) = fs s1"
proof -
  have fname: "dict_get fixture ''file'' = PStr name"
    using assms(1) by (simp add: dict_get_def)
  have ex1: "path_exists (path_div dd name) s1"
    using assms(4,5) by (rule mkdir_keeps_exists)
  have first: "ensure_download X fixture dd s = (Inr (path_div dd name), s1)"
    using assms(2,3,4) ex1 by (simp add: ensure_download_def fname)
  have again: "mkdir dd s1 = Inr (emit (EvMkdir (path_str dd)) s1)"
    using assms(4) by (rule mkdir_again)
  have ex2: "path_exists (path_div dd name) (emit (EvMkdir (path_str dd)) s1)"
    using ex1 by (simp add: path_exists_def)
  have second: "ensure_download X fixture dd s1
                  = (Inr (path_div dd name), emit (EvMkdir (path_str dd)) s1)"
    using assms(2,3) again ex2 by (simp add: ensure_download_def fname)
  have ev: "events_since s s1 = [EvMkdir (path_str dd)]"
    using mkdir_Inr(2)[OF assms(4)] by (rule events_since_append)
  show ?thesis using first second ev by simp
qed

text \<open>
  C10: a fixture whose \<open>file\<close> or \<open>url\<close> is the empty string is rejected with the
  missing-file-or-url error, the machine untouched (no directory created, nothing
  fetched), and the outcome is the one for the fixture without that field.
\<close>

theorem empty_field_rejected:
  assumes "k = ''file'' \<or> k = ''url''" and "fixture k = Some (PStr [])"
  shows "ensure_download X fixture dd s = (Inl (RuntimeError (missing_msg fixture)), s)
       \<and> ensure_download X (fixture(k := None)) dd s = ensure_download X fixture dd s"
proof -
  have a: "\<not> truthy (dict_get fixture ''file'') \<or> \<not> truthy (dict_get fixture ''url'')"
    using assms by (auto simp: dict_get_def)
  have b: "\<not> truthy (dict_get (fixture(k := None)) ''file'')
         \<or> \<not> truthy (dict_get (fixture(k := None)) ''url'')"
    using assms(1) by (auto simp: dict_get_def)
  have c: "missing_msg (fixture(k := None)) = missing_msg fixture"
    using assms(1) by (auto simp: missing_msg_def dict_get_def)
  show ?thesis
    using ensure_download_invalid[OF a] ensure_download_invalid[OF b] c by simp
qed

subsection \<open>run_fixture\<close>























subsection \<open>No function but write_report writes the report\<close>

lemma nra_I:
  "trace s' = trace s @ evs \<Longrightarrow> filter is_report_write evs = [] \<Longrightarrow> no_report_added s s'"
  by (simp add: no_report_added_def events_since_def)

lemma nra_refl [simp]: "no_report_added s s"
  by (rule nra_I[of _ _ "[]"]) simp_all












subsection \<open>Where the fatal errors come from\<close>




lemma download_failure_raises:
  assumes "fetch X s u = Inl e"
  shows "fst (urlretrieve X u target s) = Inl e"
  using assms by (simp add: urlretrieve_def Let_def)





lemma download_error_stops_loop:
  "fst (ensure_download X fixture dd s) = Inl e
   \<Longrightarrow> fst (run_loop X a dd ld (fixture # rest) binary acc s) = Inl e"
  by (auto split: prod.splits sum.splits)

subsection \<open>main\<close>

text \<open>
  C7: when the selected suite holds no fixture, main raises the selection error with
  the machine as it was at the start: nothing was built and nothing was fetched.
\<close>

theorem empty_selection_fatal:
  assumes "load_fixtures X (Path (a_fixtures a)) s = Inr catalog"
    and "select_suite (a_suite a) catalog = []"
  shows "main X a s = (Inl (RuntimeError ''No fixtures selected for suite.''), s)
       \<and> events_since s (snd (main X a s)) = []"
  using assms by (simp add: main_def run_phase_def)






text \<open>
  C2: a run that completes has the exit status main returned, which is 0 exactly when
  every result of the results sequence is \<open>pass\<close>, and 1 otherwise.
\<close>

theorem exit_code_law:
  assumes "fst (main X a s) = Inr code"
  shows "exit_status X a s = code
       \<and> (\<exists>results. fst (run_phase X a s) = Inr results
            \<and> (code = 0 \<longleftrightarrow> (\<forall>r \<in> set results. r_result r = ''pass''))
            \<and> (code = 0 \<or> code = 1))"
proof -
  obtain r1 s1 where p: "run_phase X a s = (r1, s1)" by (cases "run_phase X a s")
  from assms p obtain results where r: "r1 = Inr results"
    by (cases r1) (simp_all add: main_def)
  have f: "fst (finish X a results s1) = Inr code"
    using assms p r by (simp add: main_def)
  have "code = (if filter (\<lambda>r. r_result r \<noteq> ''pass'') results \<noteq> [] then 1 else 0)"
    using f by (auto simp: finish_def Let_def split: prod.splits sum.splits if_splits)
  then have "(code = 0 \<longleftrightarrow> (\<forall>r \<in> set results. r_result r = ''pass'')) \<and> (code = 0 \<or> code = 1)"
    by (auto simp: filter_empty_conv)
  then show ?thesis
    using assms p r by (auto simp: exit_status_def)
qed

lemma run_loop_reaches_invalid:
  assumes "\<not> truthy (dict_get bad ''file'') \<or> \<not> truthy (dict_get bad ''url'')"
  shows "run_loop X a dd ld pre binary acc s = (Inr results, s2)
     \<Longrightarrow> run_loop X a dd ld (pre @ bad # post) binary acc s
           = (Inl (RuntimeError (missing_msg bad)), s2)"
proof (induction pre arbitrary: binary acc s)
  case Nil
  then show ?case by (simp add: ensure_download_invalid[OF assms])
next
  case (Cons f pre)
  from Cons.prems show ?case
    by (auto simp: Let_def split: prod.splits sum.splits intro!: Cons.IH)
qed

text \<open>
  C3 (amended): a selected fixture without \<open>file\<close> or \<open>url\<close> makes main raise the
  error naming its id when the loop reaches it: the machine is then the one left by the
  build step and by the download and the run of every fixture selected before it, and
  nothing was done for the fixture itself or for those after it.
\<close>

theorem missing_field_raised_in_loop:
  assumes "load_fixtures X (Path (a_fixtures a)) s = Inr catalog"
    and "select_suite (a_suite a) catalog = pre @ bad # post"
    and "\<not> truthy (dict_get bad ''file'') \<or> \<not> truthy (dict_get bad ''url'')"
    and "provision X a s = (Inr binary, s1)"
    and "run_loop X a (Path ''slain-player/fixtures/downloads'') (Path (a_log_dir a))
           pre binary [] s1 = (Inr results, s2)"
  shows "main X a s = (Inl (RuntimeError (missing_msg bad)), s2)"
  using assms(1,2,4) run_loop_reaches_invalid[OF assms(3,5), of post]
  by (simp add: main_def run_phase_def)

section \<open>Concrete runs\<close>

text \<open>The stub machine loads the catalog it was given, and refuses an empty one.\<close>

lemma stub_load:
  "load_fixtures (stub_ext catalog status) (Path (a_fixtures (stub_args suite))) stub_sys
     = (if catalog = [] then Inl (RuntimeError ''No fixtures found in matrix file.'') else Inr catalog)"
  by (simp add: load_fixtures_def read_text_def Path_def root_of_def path_str_def
                stub_ext_def stub_args_def stub_sys_def)

text \<open>
  The exit-code law on two runs of one fixture: the binary exits with 3 and the status
  is 1; the binary exits with 0 and the status is 0.
\<close>

theorem exit_code_law_witness:
  "fst (main (stub_ext [fx_a] 3) (stub_args ''smoke'') stub_sys) = Inr 1
   \<and> exit_status (stub_ext [fx_a] 3) (stub_args ''smoke'') stub_sys = 1
   \<and> fst (main (stub_ext [fx_a] 0) (stub_args ''smoke'') stub_sys) = Inr 0
   \<and> exit_status (stub_ext [fx_a] 0) (stub_args ''smoke'') stub_sys = 0"
proof -
  have f: "fst (main (stub_ext [fx_a] 3) (stub_args ''smoke'') stub_sys) = Inr 1"
    by code_simp
  have p: "fst (main (stub_ext [fx_a] 0) (stub_args ''smoke'') stub_sys) = Inr 0"
    by code_simp
  show ?thesis using exit_code_law[OF f] exit_code_law[OF p] f p by simp
qed

text \<open>
  C3, as stated, fails: with the catalog \<open>[fx_a, fx_b]\<close>, where \<open>fx_b\<close> has no
  \<open>url\<close>, the error naming \<open>b\<close> is raised only after the build, and after the
  download and the run of \<open>fx_a\<close>.
\<close>

theorem validation_deferred_to_loop:
  "fst (main (stub_ext [fx_a, fx_b] 0) (stub_args ''smoke'') stub_sys)
     = Inl (RuntimeError ''Fixture b missing file or url.'')
   \<and> map ev_name (trace (snd (main (stub_ext [fx_a, fx_b] 0) (stub_args ''smoke'') stub_sys)))
     = [''build'', ''mkdir'', ''print'', ''fetch'', ''spawn'', ''mkdir'', ''write_log'']"
  by code_simp

text \<open>The same run, through the amended statement.\<close>

theorem missing_field_raised_in_loop_witness:
  "main (stub_ext [fx_a, fx_b] 0) (stub_args ''smoke'') stub_sys
     = (Inl (RuntimeError ''Fixture b missing file or url.''),
        snd (run_loop (stub_ext [fx_a, fx_b] 0) (stub_args ''smoke'')
               (Path ''slain-player/fixtures/downloads'') (Path ''logs'') [fx_a]
               (Some (binary_path False)) []
               (snd (provision (stub_ext [fx_a, fx_b] 0) (stub_args ''smoke'') stub_sys))))"
proof -
  let ?X = "stub_ext [fx_a, fx_b] 0"
  let ?a = "stub_args ''smoke''"
  let ?s1 = "snd (provision ?X ?a stub_sys)"
  let ?loop = "run_loop ?X ?a (Path ''slain-player/fixtures/downloads'') (Path (a_log_dir ?a))
                 [fx_a] (Some (binary_path False)) [] ?s1"
  have l: "load_fixtures ?X (Path (a_fixtures ?a)) stub_sys = Inr [fx_a, fx_b]"
    by (simp add: stub_load)
  have ta: "dict_get fx_a ''suite'' = PStr ''smoke''"
    by (simp add: fx_a_def dict_get_def)
  have tb: "dict_get fx_b ''suite'' = PStr ''smoke''"
    by (simp add: fx_b_def dict_get_def)
  have sel: "select_suite (a_suite ?a) [fx_a, fx_b] = [fx_a] @ fx_b # []"
    by (simp add: select_suite_def stub_args_def ta tb)
  have bad: "\<not> truthy (dict_get fx_b ''file'') \<or> \<not> truthy (dict_get fx_b ''url'')"
    by (simp add: fx_b_def dict_get_def)
  have "fst (provision ?X ?a stub_sys) = Inr (Some (binary_path False))"
    by code_simp
  then have prov: "provision ?X ?a stub_sys = (Inr (Some (binary_path False)), ?s1)"
    by (simp add: prod_eq_iff)
  have "fst ?loop
          = Inr [\<lparr>r_id = PStr ''a'', r_codec = PNone, r_container = PNone, r_frames = 60,
                  r_result = ''pass'', r_log = ''logs/a.log'', r_duration = 1 / 4\<rparr>]"
    by code_simp
  then have loop: "?loop
          = (Inr [\<lparr>r_id = PStr ''a'', r_codec = PNone, r_container = PNone, r_frames = 60,
                  r_result = ''pass'', r_log = ''logs/a.log'', r_duration = 1 / 4\<rparr>],
             snd ?loop)"
    by (simp add: prod_eq_iff)
  have m: "missing_msg fx_b = ''Fixture b missing file or url.''"
    by (simp add: missing_msg_def fx_b_def dict_get_def)
  have ld: "a_log_dir ?a = ''logs''" by (simp add: stub_args_def)
  show ?thesis
    using missing_field_raised_in_loop[OF l sel bad prov loop] m ld by simp
qed

text \<open>The asset of \<open>fx_a\<close> is in the cache: its path is returned, nothing is fetched.\<close>

theorem ensure_download_cached_witness:
  "fst (ensure_download (stub_ext [fx_a] 0) fx_a (Path ''slain-player/fixtures/downloads'')
          cached_sys)
     = Inr (path_div (Path ''slain-player/fixtures/downloads'') ''a.mp4'')
   \<and> events_since cached_sys
        (snd (ensure_download (stub_ext [fx_a] 0) fx_a (Path ''slain-player/fixtures/downloads'')
                cached_sys))
     = [EvMkdir ''slain-player/fixtures/downloads'']"
proof -
  let ?dd = "Path ''slain-player/fixtures/downloads''"
  have f: "fx_a ''file'' = Some (PStr ''a.mp4'')" by (simp add: fx_a_def)
  have n: "''a.mp4'' \<noteq> []" by simp
  have u: "truthy (dict_get fx_a ''url'')" by (simp add: fx_a_def dict_get_def)
  have "filter (is_file cached_sys) (chain ?dd) = []" by code_simp
  then obtain s1 where mk: "mkdir ?dd cached_sys = Inr s1"
    by (simp add: mkdir_def)
  have ex: "path_exists (path_div ?dd ''a.mp4'') cached_sys" by code_simp
  have ps: "path_str ?dd = ''slain-player/fixtures/downloads''" by code_simp
  show ?thesis
    using ensure_download_cached[OF f n u mk ex, of "stub_ext [fx_a] 0"] ps by simp
qed


text \<open>A catalog of one fixture tagged \<open>full\<close>, run with the suite \<open>smoke\<close>.\<close>

theorem empty_selection_fatal_witness:
  "main (stub_ext [fx_full] 0) (stub_args ''smoke'') stub_sys
     = (Inl (RuntimeError ''No fixtures selected for suite.''), stub_sys)"
proof -
  have l: "load_fixtures (stub_ext [fx_full] 0) (Path (a_fixtures (stub_args ''smoke''))) stub_sys
             = Inr [fx_full]"
    by (simp add: stub_load)
  have e: "select_suite (a_suite (stub_args ''smoke'')) [fx_full] = []"
    by (simp add: select_suite_def stub_args_def fx_full_def dict_get_def)
  show ?thesis using empty_selection_fatal[OF l e] by simp
qed

text \<open>The fixture \<open>fx_c\<close>, whose \<open>file\<close> is the empty string.\<close>

theorem empty_field_rejected_witness:
  "ensure_download (stub_ext [fx_c] 0) fx_c (Path ''slain-player/fixtures/downloads'') stub_sys
     = (Inl (RuntimeError ''Fixture c missing file or url.''), stub_sys)"
proof -
  have k: "''file'' = ''file'' \<or> ''file'' = ''url''" by simp
  have f: "fx_c ''file'' = Some (PStr [])" by (simp add: fx_c_def)
  have m: "missing_msg fx_c = ''Fixture c missing file or url.''"
    by (simp add: missing_msg_def fx_c_def dict_get_def)
  show ?thesis
    using empty_field_rejected[of "''file''" fx_c "stub_ext [fx_c] 0"
            "Path ''slain-player/fixtures/downloads''" stub_sys, OF k f] m
    by simp
qed



end
